theory Spec2Isabelle
  imports Main
begin

section \<open>Shared declarations (common.ts)\<close>

text \<open>
  Modelled from the spec: \<open>common.ts\<close> is imported by every draft but is not among the
  sources. It declares the enums \<open>AppStatus\<close>, \<open>InfrastructureProvider\<close>,
  \<open>InfrastructureStatus\<close>, the type \<open>AwsRegion\<close> and the persisted shape \<open>DbState\<close>.
  The members below are the ones the drafts use and the ones section 3 and section 6 of
  the specification list; the enum \<open>InfrastructureStatus\<close> that two drafts declare
  themselves is taken to be the one of \<open>DbState\<close>. The field
  \<open>infrastructureProvider\<close> is optional ("present iff Selected").
\<close>

datatype AppStatus = New | Active | Deleted | Corrupted

datatype InfrastructureProvider = AWS | AZURE

datatype InfrastructureStatus = NotSelected | Selected

type_synonym AwsRegion = string

record DbState =
  uuid :: string
  status :: AppStatus
  infrastructureStatus :: InfrastructureStatus
  infrastructureProvider :: "InfrastructureProvider option"

section \<open>Event catalog (events.ts)\<close>

text \<open>
  The payload of \<open>BuildRequested\<close> is a union of two shapes: the AWS shape has a
  \<open>region\<close>, the AZURE shape has none. The payload of
  \<open>ExistingInfrastructureSelected\<close> is a union of two shapes that both hold the
  provider only.
\<close>

datatype BuildRequestedPayload =
  BuildRequestedAWS string AwsRegion
  | BuildRequestedAZURE string

datatype AppDomainEvent =
  AppCreated string
  | ExistingInfrastructureSelected string InfrastructureProvider
  | BuildRequested BuildRequestedPayload
  | AppActivated string
  | AppDeleted string

text \<open>Reading the fields \<open>payload.uuid\<close>, \<open>payload.infrastructureProvider\<close> and
  \<open>payload.region\<close> of an event; \<open>None\<close> is the field that the payload does not have.\<close>

fun payload_uuid :: "AppDomainEvent \<Rightarrow> string" where
  "payload_uuid (AppCreated u) = u"
| "payload_uuid (ExistingInfrastructureSelected u p) = u"
| "payload_uuid (BuildRequested (BuildRequestedAWS u r)) = u"
| "payload_uuid (BuildRequested (BuildRequestedAZURE u)) = u"
| "payload_uuid (AppActivated u) = u"
| "payload_uuid (AppDeleted u) = u"

fun payload_infrastructureProvider :: "AppDomainEvent \<Rightarrow> InfrastructureProvider option" where
  "payload_infrastructureProvider (ExistingInfrastructureSelected u p) = Some p"
| "payload_infrastructureProvider (BuildRequested (BuildRequestedAWS u r)) = Some AWS"
| "payload_infrastructureProvider (BuildRequested (BuildRequestedAZURE u)) = Some AZURE"
| "payload_infrastructureProvider (AppCreated u) = None"
| "payload_infrastructureProvider (AppActivated u) = None"
| "payload_infrastructureProvider (AppDeleted u) = None"

fun payload_region :: "AppDomainEvent \<Rightarrow> AwsRegion option" where
  "payload_region (BuildRequested (BuildRequestedAWS u r)) = Some r"
| "payload_region (BuildRequested (BuildRequestedAZURE u)) = None"
| "payload_region (ExistingInfrastructureSelected u p) = None"
| "payload_region (AppCreated u) = None"
| "payload_region (AppActivated u) = None"
| "payload_region (AppDeleted u) = None"

section \<open>Snapshots\<close>

text \<open>
  The nested \<open>infrastructure\<close> object is \<open>{status: NotSelected}\<close> or
  \<open>{status: Selected, type: provider}\<close>.
\<close>

datatype Infrastructure =
  NotSelectedInfrastructure
  | SelectedInfrastructure InfrastructureProvider

fun infrastructure_status :: "Infrastructure \<Rightarrow> InfrastructureStatus" where
  "infrastructure_status NotSelectedInfrastructure = NotSelected"
| "infrastructure_status (SelectedInfrastructure p) = Selected"

fun infrastructure_type :: "Infrastructure \<Rightarrow> InfrastructureProvider option" where
  "infrastructure_type NotSelectedInfrastructure = None"
| "infrastructure_type (SelectedInfrastructure p) = Some p"

text \<open>
  A snapshot is an object with the fields \<open>uuid\<close>, \<open>status\<close> and \<open>infrastructure\<close>.
  The type \<open>CorruptedState\<close> has no \<open>infrastructure\<close> field, and the corrupted value
  that reconstruction returns has none, so the field is optional. A spread
  \<open>{...state, status: s}\<close> is a record update: it keeps every other field, the
  \<open>infrastructure\<close> of a corrupted snapshot included.
\<close>

record AppState =
  uuid :: string
  status :: AppStatus
  infrastructure :: "Infrastructure option"

text \<open>An entity is a snapshot together with \<open>dispatchedEvents\<close>
  (\<open>State & DomainEntity<AppDomainEvent>\<close>).\<close>

record Entity = AppState +
  dispatchedEvents :: "AppDomainEvent list"

text \<open>
  \<open>TypeError\<close> is what reading \<open>app.infrastructure.status\<close> raises when the object has
  no \<open>infrastructure\<close>; \<open>NotImplemented\<close> is the error of the stub \<open>checkInvariants\<close>.
\<close>

datatype error = TypeError | NotImplemented

section \<open>State predicates\<close>

text \<open>
  \<open>a && b\<close> evaluates \<open>b\<close> only when \<open>a\<close> holds: the \<open>infrastructure\<close> is read only
  after the test of \<open>status\<close> has succeeded. \<open>isNewState\<close> and \<open>isNotActivatedState\<close>
  are the same in poc-reducer.ts and in the intersection-type draft.
\<close>

definition isNewState :: "'a AppState_scheme \<Rightarrow> error + bool" where
  "isNewState app =
     (if status app = New
      then (case infrastructure app of
              None \<Rightarrow> Inl TypeError
            | Some i \<Rightarrow> Inr (infrastructure_status i = NotSelected))
      else Inr False)"

definition isNotActivatedState :: "'a AppState_scheme \<Rightarrow> error + bool" where
  "isNotActivatedState app =
     (if status app = New
      then (case infrastructure app of
              None \<Rightarrow> Inl TypeError
            | Some i \<Rightarrow> Inr (infrastructure_status i = Selected))
      else Inr False)"

text \<open>The intersection-type draft tests the status only. (poc-reducer.ts has an
  \<open>isActiveState\<close> that tests the infrastructure too; its reducer does not call it.)\<close>

definition isActiveState :: "'a AppState_scheme \<Rightarrow> error + bool" where
  "isActiveState app = Inr (status app = Active)"

definition isDeletedState :: "'a AppState_scheme \<Rightarrow> bool" where
  "isDeletedState app = (status app = Deleted)"

text \<open>\<open>a || b\<close>: \<open>b\<close> is evaluated only when \<open>a\<close> returned false; an error of \<open>a\<close> ends
  the evaluation.\<close>

definition or_else :: "error + bool \<Rightarrow> error + bool \<Rightarrow> error + bool" where
  "or_else a b = (case a of Inl e \<Rightarrow> Inl e | Inr t \<Rightarrow> if t then Inr True else b)"

section \<open>The reducer of the intersection-type draft\<close>

text \<open>
  The three transition functions take the state and the event. Of the event only
  \<open>event.payload.infrastructureProvider\<close> is read, by the first one; it is the second
  argument there, and the unused event of the other two is left out.
\<close>

definition applyExistingInfrastructureSelected ::
    "'a AppState_scheme \<Rightarrow> InfrastructureProvider \<Rightarrow> 'a AppState_scheme" where
  "applyExistingInfrastructureSelected state p =
     state\<lparr>infrastructure := Some (SelectedInfrastructure p)\<rparr>"

definition applyAppDeleted :: "'a AppState_scheme \<Rightarrow> 'a AppState_scheme" where
  "applyAppDeleted state = state\<lparr>status := Deleted\<rparr>"

definition applyAppActivated :: "'a AppState_scheme \<Rightarrow> 'a AppState_scheme" where
  "applyAppActivated state = state\<lparr>status := Active\<rparr>"

text \<open>The function \<open>apply\<close> of the source.\<close>

fun apply_event :: "'a AppState_scheme \<Rightarrow> AppDomainEvent \<Rightarrow> error + 'a AppState_scheme" where
  "apply_event state (ExistingInfrastructureSelected u p) =
     (case isNewState state of
        Inl e \<Rightarrow> Inl e
      | Inr t \<Rightarrow>
          if t then Inr (applyExistingInfrastructureSelected state p)
          else Inr (state\<lparr>status := Corrupted\<rparr>))"
| "apply_event state (AppDeleted u) =
     (case or_else (isNotActivatedState state) (or_else (isNewState state) (isActiveState state)) of
        Inl e \<Rightarrow> Inl e
      | Inr t \<Rightarrow>
          if t then Inr (applyAppDeleted state)
          else Inr (state\<lparr>status := Corrupted\<rparr>))"
| "apply_event state (AppActivated u) =
     (case isNotActivatedState state of
        Inl e \<Rightarrow> Inl e
      | Inr t \<Rightarrow>
          if t then Inr (applyAppActivated state)
          else Inr (state\<lparr>status := Corrupted\<rparr>))"
| "apply_event state (AppCreated u) = Inr state"
| "apply_event state (BuildRequested b) = Inr state"

section \<open>The reducer of poc-reducer.ts\<close>

fun reduce :: "AppState \<Rightarrow> AppDomainEvent \<Rightarrow> error + AppState" where
  "reduce state (AppCreated u) =
     Inr \<lparr>uuid = u, status = New, infrastructure = Some NotSelectedInfrastructure\<rparr>"
| "reduce state (ExistingInfrastructureSelected u p) =
     (case isNewState state of
        Inl e \<Rightarrow> Inl e
      | Inr t \<Rightarrow>
          if t then Inr (state\<lparr>infrastructure := Some (SelectedInfrastructure p)\<rparr>)
          else Inr (state\<lparr>status := Corrupted\<rparr>))"
| "reduce state (AppActivated u) =
     (case isNotActivatedState state of
        Inl e \<Rightarrow> Inl e
      | Inr t \<Rightarrow>
          if t then Inr (state\<lparr>status := Active\<rparr>)
          else Inr (state\<lparr>status := Corrupted\<rparr>))"
| "reduce state (AppDeleted u) =
     (if isDeletedState state then Inr (state\<lparr>status := Deleted\<rparr>)
      else Inr (state\<lparr>status := Corrupted\<rparr>))"
| "reduce state (BuildRequested b) = Inr state"

section \<open>Typestate variants\<close>

text \<open>
  A variant is an entity together with the methods of its state. The builders
  \<open>buildNew\<close>, \<open>buildNotActivated\<close>, \<open>buildActive\<close> and \<open>buildDeleted\<close> return
  \<open>{...state}\<close> with the methods of the variant added; the corrupted variant is the
  object literal that \<open>mapDbState\<close> returns. The constructor records which builder made
  the value, that is, which methods it has. A method closes over the \<open>state\<close> its
  builder received, so it is a function of the entity of its variant.
\<close>

datatype App =
  NewApp Entity
  | NotActivatedApp Entity
  | ActiveApp Entity
  | DeletedApp Entity
  | CorruptedApp Entity

definition buildNew :: "Entity \<Rightarrow> App" where
  "buildNew state = NewApp state"

definition buildNotActivated :: "Entity \<Rightarrow> App" where
  "buildNotActivated state = NotActivatedApp state"

definition buildActive :: "Entity \<Rightarrow> App" where
  "buildActive state = ActiveApp state"

definition buildDeleted :: "Entity \<Rightarrow> App" where
  "buildDeleted state = DeletedApp state"

text \<open>
  The event that \<open>selectInfrastructure\<close> constructs, with the same text in the
  intersection-type draft and in the interface-extension draft:
  \<open>new ExistingInfrastructureSelected({uuid: state.uuid, infrastructureProvider: type})\<close>.
  The method has the one parameter \<open>type\<close>; the object literal has the two fields
  \<open>uuid\<close> and \<open>infrastructureProvider\<close>.
\<close>

definition selectInfrastructure_event ::
    "'a AppState_scheme \<Rightarrow> InfrastructureProvider \<Rightarrow> AppDomainEvent" where
  "selectInfrastructure_event state type = ExistingInfrastructureSelected (uuid state) type"

subsection \<open>Methods of the intersection-type draft\<close>

text \<open>The stub \<open>checkInvariants\<close> throws \<open>Error("Not implemented")\<close> on every state.\<close>

definition checkInvariants :: "'a AppState_scheme \<Rightarrow> error + unit" where
  "checkInvariants state = Inl NotImplemented"

definition New_selectInfrastructure :: "Entity \<Rightarrow> InfrastructureProvider \<Rightarrow> error + App" where
  "New_selectInfrastructure state type =
     (let event = selectInfrastructure_event state type;
          newState = applyExistingInfrastructureSelected state type
      in case checkInvariants newState of
           Inl e \<Rightarrow> Inl e
         | Inr _ \<Rightarrow> Inr (buildNotActivated (newState\<lparr>dispatchedEvents := [event]\<rparr>)))"

definition New_delete :: "Entity \<Rightarrow> error + App" where
  "New_delete state =
     (let event = AppDeleted (uuid state);
          newState = applyAppDeleted state
      in case checkInvariants newState of
           Inl e \<Rightarrow> Inl e
         | Inr _ \<Rightarrow> Inr (buildDeleted (newState\<lparr>dispatchedEvents := [event]\<rparr>)))"

definition NotActivated_activate :: "Entity \<Rightarrow> error + App" where
  "NotActivated_activate state =
     (let event = AppActivated (uuid state);
          newState = applyAppActivated state
      in case checkInvariants newState of
           Inl e \<Rightarrow> Inl e
         | Inr _ \<Rightarrow> Inr (buildActive (newState\<lparr>dispatchedEvents := [event]\<rparr>)))"

definition NotActivated_delete :: "Entity \<Rightarrow> error + App" where
  "NotActivated_delete state =
     (let event = AppDeleted (uuid state);
          newState = applyAppDeleted state
      in case checkInvariants newState of
           Inl e \<Rightarrow> Inl e
         | Inr _ \<Rightarrow> Inr (buildDeleted (newState\<lparr>dispatchedEvents := [event]\<rparr>)))"

definition Active_delete :: "Entity \<Rightarrow> error + App" where
  "Active_delete state =
     (let event = AppDeleted (uuid state);
          newState = applyAppDeleted state
      in case checkInvariants newState of
           Inl e \<Rightarrow> Inl e
         | Inr _ \<Rightarrow> Inr (buildDeleted (newState\<lparr>dispatchedEvents := [event]\<rparr>)))"

subsection \<open>Methods of the interface-extension draft\<close>

text \<open>This draft calls neither a reducer nor \<open>checkInvariants\<close>: each method spreads
  the state and overwrites \<open>dispatchedEvents\<close> and the field that changes.\<close>

definition New_selectInfrastructure_iface :: "Entity \<Rightarrow> InfrastructureProvider \<Rightarrow> App" where
  "New_selectInfrastructure_iface state type =
     buildNotActivated
       (state\<lparr>dispatchedEvents := [selectInfrastructure_event state type],
              infrastructure := Some (SelectedInfrastructure type)\<rparr>)"

definition New_delete_iface :: "Entity \<Rightarrow> App" where
  "New_delete_iface state =
     buildDeleted (state\<lparr>dispatchedEvents := [AppDeleted (uuid state)], status := Deleted\<rparr>)"

definition NotActivated_activate_iface :: "Entity \<Rightarrow> App" where
  "NotActivated_activate_iface state =
     buildActive (state\<lparr>dispatchedEvents := [AppActivated (uuid state)], status := Active\<rparr>)"

definition NotActivated_delete_iface :: "Entity \<Rightarrow> App" where
  "NotActivated_delete_iface state =
     buildDeleted (state\<lparr>dispatchedEvents := [AppDeleted (uuid state)], status := Deleted\<rparr>)"

definition Active_delete_iface :: "Entity \<Rightarrow> App" where
  "Active_delete_iface state =
     buildDeleted (state\<lparr>dispatchedEvents := [AppDeleted (uuid state)], status := Deleted\<rparr>)"

section \<open>Reconstruction from a persisted snapshot\<close>

text \<open>
  The drafts test \<open>dbState.infrastructureProvider\<close> for truthiness. A missing
  provider is falsy; whether a provider that is there is truthy depends on the values
  that the enum of \<open>common.ts\<close> gives its members (a member numbered 0 is falsy, a
  string member is truthy). The reconstruction functions take that as the parameter
  \<open>truthy\<close>.
\<close>

definition provided :: "(InfrastructureProvider \<Rightarrow> bool) \<Rightarrow> InfrastructureProvider option \<Rightarrow> bool" where
  "provided truthy v = (case v of None \<Rightarrow> False | Some p \<Rightarrow> truthy p)"

text \<open>
  \<open>mapDbState\<close> has the same text in the intersection-type draft and in the
  interface-extension draft. The result copies \<open>dbState.infrastructureStatus\<close>, whose
  value the branch has just tested, and \<open>dbState.infrastructureProvider\<close>, which the
  branch has just found truthy. The last \<open>return\<close> is reached by every input that no
  branch returned for, a deleted one with \<open>Selected\<close> and no provider included.
\<close>

definition mapDbState :: "(InfrastructureProvider \<Rightarrow> bool) \<Rightarrow> DbState \<Rightarrow> App" where
  "mapDbState truthy dbState =
     (if DbState.status dbState = New \<and> infrastructureStatus dbState = NotSelected
      then buildNew
             \<lparr>uuid = DbState.uuid dbState, status = DbState.status dbState,
              infrastructure = Some NotSelectedInfrastructure, dispatchedEvents = []\<rparr>
      else if DbState.status dbState = New \<and> infrastructureStatus dbState = Selected
                \<and> provided truthy (infrastructureProvider dbState)
      then buildNotActivated
             \<lparr>uuid = DbState.uuid dbState, status = DbState.status dbState,
              infrastructure = Some (SelectedInfrastructure (the (infrastructureProvider dbState))),
              dispatchedEvents = []\<rparr>
      else if DbState.status dbState = Active \<and> infrastructureStatus dbState = Selected
                \<and> provided truthy (infrastructureProvider dbState)
      then buildActive
             \<lparr>uuid = DbState.uuid dbState, status = DbState.status dbState,
              infrastructure = Some (SelectedInfrastructure (the (infrastructureProvider dbState))),
              dispatchedEvents = []\<rparr>
      else if DbState.status dbState = Deleted
                \<and> infrastructureStatus dbState = Selected \<and> provided truthy (infrastructureProvider dbState)
      then buildDeleted
             \<lparr>uuid = DbState.uuid dbState, status = DbState.status dbState,
              infrastructure = Some (SelectedInfrastructure (the (infrastructureProvider dbState))),
              dispatchedEvents = []\<rparr>
      else if DbState.status dbState = Deleted \<and> infrastructureStatus dbState = NotSelected
      then buildDeleted
             \<lparr>uuid = DbState.uuid dbState, status = DbState.status dbState,
              infrastructure = Some NotSelectedInfrastructure, dispatchedEvents = []\<rparr>
      else CorruptedApp
             \<lparr>uuid = DbState.uuid dbState, status = Corrupted,
              infrastructure = None, dispatchedEvents = []\<rparr>)"

text \<open>\<open>mapNewState\<close> of poc-reducer.ts returns the bare state.\<close>

definition mapNewState :: "(InfrastructureProvider \<Rightarrow> bool) \<Rightarrow> DbState \<Rightarrow> AppState" where
  "mapNewState truthy props =
     (if DbState.status props = New \<and> infrastructureStatus props = NotSelected
      then \<lparr>uuid = DbState.uuid props, status = DbState.status props,
            infrastructure = Some NotSelectedInfrastructure\<rparr>
      else if DbState.status props = New \<and> infrastructureStatus props = Selected
                \<and> provided truthy (infrastructureProvider props)
      then \<lparr>uuid = DbState.uuid props, status = DbState.status props,
            infrastructure = Some (SelectedInfrastructure (the (infrastructureProvider props)))\<rparr>
      else if DbState.status props = Active \<and> infrastructureStatus props = Selected
                \<and> provided truthy (infrastructureProvider props)
      then \<lparr>uuid = DbState.uuid props, status = DbState.status props,
            infrastructure = Some (SelectedInfrastructure (the (infrastructureProvider props)))\<rparr>
      else if DbState.status props = Deleted
                \<and> provided truthy (infrastructureProvider props) \<and> infrastructureStatus props = Selected
      then \<lparr>uuid = DbState.uuid props, status = DbState.status props,
            infrastructure = Some (SelectedInfrastructure (the (infrastructureProvider props)))\<rparr>
      else if DbState.status props = Deleted \<and> infrastructureStatus props = NotSelected
      then \<lparr>uuid = DbState.uuid props, status = DbState.status props,
            infrastructure = Some NotSelectedInfrastructure\<rparr>
      else \<lparr>uuid = DbState.uuid props, status = Corrupted, infrastructure = None\<rparr>)"

section \<open>Notions of the specification\<close>

text \<open>The entity a variant wraps, its snapshot and its events.\<close>

fun entity :: "App \<Rightarrow> Entity" where
  "entity (NewApp s) = s"
| "entity (NotActivatedApp s) = s"
| "entity (ActiveApp s) = s"
| "entity (DeletedApp s) = s"
| "entity (CorruptedApp s) = s"

definition snapshot :: "App \<Rightarrow> AppState" where
  "snapshot a = AppState.truncate (entity a)"

datatype Variant = VNew | VNotActivated | VActive | VDeleted | VCorrupted

fun variant :: "App \<Rightarrow> Variant" where
  "variant (NewApp s) = VNew"
| "variant (NotActivatedApp s) = VNotActivated"
| "variant (ActiveApp s) = VActive"
| "variant (DeletedApp s) = VDeleted"
| "variant (CorruptedApp s) = VCorrupted"

text \<open>The invariant of the data model: an active snapshot has a selected
  infrastructure.\<close>

definition invariant :: "'a AppState_scheme \<Rightarrow> bool" where
  "invariant s =
     (if status s = Active
      then (case infrastructure s of Some (SelectedInfrastructure p) \<Rightarrow> True | _ \<Rightarrow> False)
      else True)"

text \<open>
  The predicates of the reducers read \<open>infrastructure.status\<close> only when the status is
  \<open>New\<close>. Every value of the union type \<open>State\<close> with that status has an
  \<open>infrastructure\<close>, so the read succeeds on every value of the type.
\<close>

definition readable :: "'a AppState_scheme \<Rightarrow> bool" where
  "readable s = (if status s = New then infrastructure s \<noteq> None else True)"

text \<open>
  The variant that section 4.3 of the specification gives a persisted snapshot, rule
  by rule. The infrastructure of a persisted snapshot is \<open>NotSelected\<close>, or
  \<open>Selected\<close> with its provider.
\<close>

definition persistedInfrastructure :: "DbState \<Rightarrow> Infrastructure option" where
  "persistedInfrastructure db =
     (case infrastructureStatus db of
        NotSelected \<Rightarrow> Some NotSelectedInfrastructure
      | Selected \<Rightarrow> map_option SelectedInfrastructure (infrastructureProvider db))"

fun fromPersisted_spec :: "AppStatus \<Rightarrow> Infrastructure option \<Rightarrow> Variant" where
  "fromPersisted_spec New (Some NotSelectedInfrastructure) = VNew"
| "fromPersisted_spec New (Some (SelectedInfrastructure p)) = VNotActivated"
| "fromPersisted_spec Active (Some (SelectedInfrastructure p)) = VActive"
| "fromPersisted_spec Deleted (Some i) = VDeleted"
| "fromPersisted_spec s i = VCorrupted"

text \<open>A state has the fields of a persisted snapshot: the same \<open>uuid\<close> and \<open>status\<close>,
  the same infrastructure status and the same provider.\<close>

definition sameFields :: "DbState \<Rightarrow> AppState \<Rightarrow> bool" where
  "sameFields db s =
     (uuid s = DbState.uuid db \<and> status s = DbState.status db
      \<and> map_option infrastructure_status (infrastructure s) = Some (infrastructureStatus db)
      \<and> Option.bind (infrastructure s) infrastructure_type = infrastructureProvider db)"

section \<open>Auxiliary facts\<close>

lemmas pred_defs =
  isNewState_def isNotActivatedState_def isActiveState_def isDeletedState_def or_else_def

lemmas apply_defs =
  applyExistingInfrastructureSelected_def applyAppDeleted_def applyAppActivated_def

lemmas build_defs = buildNew_def buildNotActivated_def buildActive_def buildDeleted_def

lemma infrastructure_status_NotSelected [simp]:
  "infrastructure_status i = NotSelected \<longleftrightarrow> i = NotSelectedInfrastructure"
  by (cases i) simp_all

lemma infrastructure_status_Selected [simp]:
  "infrastructure_status i = Selected \<longleftrightarrow> i \<noteq> NotSelectedInfrastructure"
  by (cases i) simp_all

lemma apply_event_invariant:
  "invariant s \<Longrightarrow> apply_event s e = Inr s' \<Longrightarrow> invariant s'"
  by (cases e)
     (auto simp: pred_defs apply_defs invariant_def
           split: if_splits option.splits Infrastructure.splits)

lemma apply_event_returns:
  "readable s \<Longrightarrow> \<exists>t. apply_event s e = Inr t"
  by (cases e; cases "infrastructure s")
     (auto simp: pred_defs readable_def split: if_splits)

text \<open>Outside the state type, a new object with no \<open>infrastructure\<close> makes both
  reducers raise.\<close>

lemma reducers_TypeError:
  "apply_event \<lparr>uuid = ''u1'', status = New, infrastructure = None\<rparr> (AppActivated ''u1'')
     = Inl TypeError"
  "reduce \<lparr>uuid = ''u1'', status = New, infrastructure = None\<rparr>
      (ExistingInfrastructureSelected ''u1'' AWS) = Inl TypeError"
  by (simp_all add: pred_defs)

lemma mapDbState_invariant: "invariant (snapshot (mapDbState truthy db))"
  by (simp add: mapDbState_def build_defs snapshot_def AppState.truncate_def invariant_def)

section \<open>Deleting\<close>

text \<open>
  The reducer \<open>apply\<close> of the intersection-type draft deletes a new or an active
  snapshot and keeps its infrastructure, and corrupts a deleted one.
\<close>

lemma apply_event_AppDeleted:
  fixes s :: AppState
  shows "(status s = New \<or> status s = Active) \<and> readable s \<longrightarrow>
           apply_event s (AppDeleted u) = Inr (s\<lparr>status := Deleted\<rparr>)"
    and "status s = Deleted \<longrightarrow> apply_event s (AppDeleted u) = Inr (s\<lparr>status := Corrupted\<rparr>)"
  by (auto simp: pred_defs apply_defs readable_def split: option.splits)

text \<open>
  Claim C1 (deleting a new or an active snapshot gives a deleted one with the same
  infrastructure; deleting a deleted one gives a corrupted one). The reducer \<open>reduce\<close>
  of poc-reducer.ts tests \<open>isDeletedState\<close> the wrong way round: it corrupts the new
  snapshot and the active snapshot, and it leaves the deleted snapshot deleted.
\<close>

theorem reduce_AppDeleted_inverted:
  "reduce \<lparr>uuid = ''u1'', status = New, infrastructure = Some NotSelectedInfrastructure\<rparr>
      (AppDeleted ''u1'')
     = Inr \<lparr>uuid = ''u1'', status = Corrupted, infrastructure = Some NotSelectedInfrastructure\<rparr>
   \<and> reduce \<lparr>uuid = ''u1'', status = Active, infrastructure = Some (SelectedInfrastructure AWS)\<rparr>
      (AppDeleted ''u1'')
     = Inr \<lparr>uuid = ''u1'', status = Corrupted, infrastructure = Some (SelectedInfrastructure AWS)\<rparr>
   \<and> reduce \<lparr>uuid = ''u1'', status = Deleted, infrastructure = Some NotSelectedInfrastructure\<rparr>
      (AppDeleted ''u1'')
     = Inr \<lparr>uuid = ''u1'', status = Deleted, infrastructure = Some NotSelectedInfrastructure\<rparr>"
  by (simp add: isDeletedState_def)

section \<open>Selecting an infrastructure\<close>

text \<open>
  Claim C2. In both reducers, \<open>ExistingInfrastructureSelected\<close> with provider \<open>p\<close>
  applied to a snapshot that is new with no infrastructure selected gives the snapshot
  with the infrastructure \<open>Selected p\<close>; applied to any other snapshot it gives the same
  snapshot with the status \<open>Corrupted\<close> and every other field as it was.
\<close>

theorem ExistingInfrastructureSelected_transition:
  fixes s :: AppState
  shows "(status s = New \<and> infrastructure s = Some NotSelectedInfrastructure \<longrightarrow>
            apply_event s (ExistingInfrastructureSelected u p)
              = Inr (s\<lparr>infrastructure := Some (SelectedInfrastructure p)\<rparr>)
          \<and> reduce s (ExistingInfrastructureSelected u p)
              = Inr (s\<lparr>infrastructure := Some (SelectedInfrastructure p)\<rparr>))
       \<and> (\<not> (status s = New \<and> infrastructure s = Some NotSelectedInfrastructure)
            \<and> readable s \<longrightarrow>
            apply_event s (ExistingInfrastructureSelected u p) = Inr (s\<lparr>status := Corrupted\<rparr>)
          \<and> reduce s (ExistingInfrastructureSelected u p) = Inr (s\<lparr>status := Corrupted\<rparr>))"
  by (auto simp: pred_defs apply_defs readable_def split: option.splits)

theorem ExistingInfrastructureSelected_transition_witness:
  "apply_event \<lparr>uuid = ''u1'', status = New, infrastructure = Some NotSelectedInfrastructure\<rparr>
      (ExistingInfrastructureSelected ''u1'' AWS)
     = Inr \<lparr>uuid = ''u1'', status = New, infrastructure = Some (SelectedInfrastructure AWS)\<rparr>
   \<and> apply_event \<lparr>uuid = ''u1'', status = Active, infrastructure = Some (SelectedInfrastructure AZURE)\<rparr>
      (ExistingInfrastructureSelected ''u1'' AWS)
     = Inr \<lparr>uuid = ''u1'', status = Corrupted, infrastructure = Some (SelectedInfrastructure AZURE)\<rparr>
   \<and> reduce \<lparr>uuid = ''u1'', status = Active, infrastructure = Some (SelectedInfrastructure AZURE)\<rparr>
      (ExistingInfrastructureSelected ''u1'' AWS)
     = Inr \<lparr>uuid = ''u1'', status = Corrupted, infrastructure = Some (SelectedInfrastructure AZURE)\<rparr>"
  using ExistingInfrastructureSelected_transition
          [of "\<lparr>uuid = ''u1'', status = New, infrastructure = Some NotSelectedInfrastructure\<rparr>"
              "''u1''" AWS]
        ExistingInfrastructureSelected_transition
          [of "\<lparr>uuid = ''u1'', status = Active, infrastructure = Some (SelectedInfrastructure AZURE)\<rparr>"
              "''u1''" AWS]
  by (simp add: readable_def)

section \<open>Activating\<close>

text \<open>
  Claim C3. In both reducers, \<open>AppActivated\<close> applied to a snapshot that is new with a
  selected infrastructure gives the snapshot with the status \<open>Active\<close>, the
  infrastructure as it was; applied to any other snapshot it gives the snapshot with the
  status \<open>Corrupted\<close>.
\<close>

theorem AppActivated_transition:
  fixes s :: AppState
  shows "(status s = New \<and> infrastructure s = Some (SelectedInfrastructure p) \<longrightarrow>
            apply_event s (AppActivated u) = Inr (s\<lparr>status := Active\<rparr>)
          \<and> reduce s (AppActivated u) = Inr (s\<lparr>status := Active\<rparr>))
       \<and> (\<not> (status s = New \<and> (\<exists>q. infrastructure s = Some (SelectedInfrastructure q)))
            \<and> readable s \<longrightarrow>
            apply_event s (AppActivated u) = Inr (s\<lparr>status := Corrupted\<rparr>)
          \<and> reduce s (AppActivated u) = Inr (s\<lparr>status := Corrupted\<rparr>))"
  by (cases "infrastructure s"; cases "the (infrastructure s)")
     (auto simp: pred_defs apply_defs readable_def)

theorem AppActivated_transition_witness:
  "apply_event \<lparr>uuid = ''u1'', status = New, infrastructure = Some (SelectedInfrastructure AWS)\<rparr>
      (AppActivated ''u1'')
     = Inr \<lparr>uuid = ''u1'', status = Active, infrastructure = Some (SelectedInfrastructure AWS)\<rparr>
   \<and> reduce \<lparr>uuid = ''u1'', status = New, infrastructure = Some NotSelectedInfrastructure\<rparr>
      (AppActivated ''u1'')
     = Inr \<lparr>uuid = ''u1'', status = Corrupted, infrastructure = Some NotSelectedInfrastructure\<rparr>"
  using AppActivated_transition
          [of "\<lparr>uuid = ''u1'', status = New, infrastructure = Some (SelectedInfrastructure AWS)\<rparr>"
              AWS "''u1''"]
        AppActivated_transition
          [of "\<lparr>uuid = ''u1'', status = New, infrastructure = Some NotSelectedInfrastructure\<rparr>"
              AWS "''u1''"]
  by (simp add: readable_def)

section \<open>Events that the reducers do not match\<close>

text \<open>
  Claim C4, as stated, fails on \<open>reduce\<close>: \<open>AppCreated\<close> applied to an active snapshot
  returns a new snapshot with the \<open>uuid\<close> of the event, not the snapshot it was given.
\<close>

theorem reduce_AppCreated_counterexample:
  "reduce \<lparr>uuid = ''u1'', status = Active, infrastructure = Some (SelectedInfrastructure AWS)\<rparr>
      (AppCreated ''u2'')
     = Inr \<lparr>uuid = ''u2'', status = New, infrastructure = Some NotSelectedInfrastructure\<rparr>
   \<and> \<lparr>uuid = ''u2'', status = New, infrastructure = Some NotSelectedInfrastructure\<rparr>
     \<noteq> \<lparr>uuid = ''u1'', status = Active, infrastructure = Some (SelectedInfrastructure AWS)\<rparr>"
  by simp

text \<open>
  Claim C4, amended. \<open>apply\<close> returns the snapshot unchanged for \<open>AppCreated\<close> and for
  \<open>BuildRequested\<close>; \<open>reduce\<close> returns it unchanged for \<open>BuildRequested\<close>, and for
  \<open>AppCreated\<close> it returns the new snapshot of the event's \<open>uuid\<close> with no
  infrastructure selected, whatever the snapshot it was given.
\<close>

theorem AppCreated_BuildRequested_ignored:
  fixes s :: AppState
  shows "apply_event s (AppCreated u) = Inr s
       \<and> apply_event s (BuildRequested b) = Inr s
       \<and> reduce s (BuildRequested b) = Inr s
       \<and> reduce s (AppCreated u)
           = Inr \<lparr>uuid = u, status = New, infrastructure = Some NotSelectedInfrastructure\<rparr>"
  by simp

section \<open>Reconstruction\<close>

text \<open>
  Claim C5. When the providers are truthy values, \<open>mapDbState\<close> returns, for every
  persisted snapshot, the variant that the five rules of the specification give it: new
  with \<open>NotSelected\<close> is New, new with \<open>Selected\<close> and a provider is NotActivated,
  active with \<open>Selected\<close> and a provider is Active, deleted with either infrastructure
  is Deleted, and everything else is Corrupted (active with \<open>NotSelected\<close>, corrupted,
  and \<open>Selected\<close> with no provider). \<open>mapNewState\<close> returns the snapshot that the
  variant of \<open>mapDbState\<close> wraps.
\<close>

theorem mapDbState_variant:
  "\<forall>p. truthy p \<Longrightarrow>
     variant (mapDbState truthy db)
       = fromPersisted_spec (DbState.status db) (persistedInfrastructure db)
     \<and> mapNewState truthy db = snapshot (mapDbState truthy db)"
  by (cases "DbState.status db"; cases "infrastructureStatus db"; cases "infrastructureProvider db")
     (simp_all add: mapDbState_def mapNewState_def build_defs persistedInfrastructure_def
        provided_def snapshot_def AppState.truncate_def)

theorem mapDbState_variant_witness:
  "variant (mapDbState (\<lambda>p. True)
      \<lparr>DbState.uuid = ''u1'', DbState.status = Active, infrastructureStatus = NotSelected,
       infrastructureProvider = None\<rparr>) = VCorrupted
   \<and> variant (mapDbState (\<lambda>p. True)
      \<lparr>DbState.uuid = ''u1'', DbState.status = New, infrastructureStatus = Selected,
       infrastructureProvider = Some AWS\<rparr>) = VNotActivated
   \<and> mapNewState (\<lambda>p. True)
      \<lparr>DbState.uuid = ''u1'', DbState.status = Deleted, infrastructureStatus = Selected,
       infrastructureProvider = Some AZURE\<rparr>
     = \<lparr>uuid = ''u1'', status = Deleted, infrastructure = Some (SelectedInfrastructure AZURE)\<rparr>"
  using mapDbState_variant
          [of "\<lambda>p. True"
              "\<lparr>DbState.uuid = ''u1'', DbState.status = Active, infrastructureStatus = NotSelected,
                infrastructureProvider = None\<rparr>"]
        mapDbState_variant
          [of "\<lambda>p. True"
              "\<lparr>DbState.uuid = ''u1'', DbState.status = New, infrastructureStatus = Selected,
                infrastructureProvider = Some AWS\<rparr>"]
        mapDbState_variant
          [of "\<lambda>p. True"
              "\<lparr>DbState.uuid = ''u1'', DbState.status = Deleted, infrastructureStatus = Selected,
                infrastructureProvider = Some AZURE\<rparr>"]
  by (simp add: persistedInfrastructure_def mapDbState_def build_defs provided_def
        snapshot_def AppState.truncate_def)

text \<open>
  Were \<open>AWS\<close> the member numbered 0 of its enum, the truthiness test would fail for
  it and a new snapshot with the infrastructure \<open>Selected AWS\<close> would be reconstructed
  as corrupted.
\<close>

lemma mapDbState_falsy_provider:
  "mapDbState (\<lambda>p. p \<noteq> AWS)
      \<lparr>DbState.uuid = ''u1'', DbState.status = New, infrastructureStatus = Selected,
       infrastructureProvider = Some AWS\<rparr>
     = CorruptedApp \<lparr>uuid = ''u1'', status = Corrupted, infrastructure = None,
                     dispatchedEvents = []\<rparr>"
  by (simp add: mapDbState_def provided_def)

section \<open>Typestate operations and their events\<close>

text \<open>
  Every method of the interface-extension draft returns the next variant with exactly
  the one event of its transition; every variant that \<open>mapDbState\<close> returns has no event.
\<close>

lemma iface_operations_one_event:
  "New_selectInfrastructure_iface state p =
     NotActivatedApp (state\<lparr>dispatchedEvents := [ExistingInfrastructureSelected (uuid state) p],
                           infrastructure := Some (SelectedInfrastructure p)\<rparr>)"
  "New_delete_iface state =
     DeletedApp (state\<lparr>dispatchedEvents := [AppDeleted (uuid state)], status := Deleted\<rparr>)"
  "NotActivated_activate_iface state =
     ActiveApp (state\<lparr>dispatchedEvents := [AppActivated (uuid state)], status := Active\<rparr>)"
  "NotActivated_delete_iface state =
     DeletedApp (state\<lparr>dispatchedEvents := [AppDeleted (uuid state)], status := Deleted\<rparr>)"
  "Active_delete_iface state =
     DeletedApp (state\<lparr>dispatchedEvents := [AppDeleted (uuid state)], status := Deleted\<rparr>)"
  by (simp_all add: New_selectInfrastructure_iface_def New_delete_iface_def
        NotActivated_activate_iface_def NotActivated_delete_iface_def Active_delete_iface_def
        selectInfrastructure_event_def build_defs)

lemma mapDbState_no_events: "dispatchedEvents (entity (mapDbState truthy db)) = []"
  by (simp add: mapDbState_def build_defs)

text \<open>Every method of the intersection-type draft ends in the error of
  \<open>checkInvariants\<close>, on every state.\<close>

lemma intersection_operations_not_implemented:
  "New_selectInfrastructure state p = Inl NotImplemented"
  "New_delete state = Inl NotImplemented"
  "NotActivated_activate state = Inl NotImplemented"
  "NotActivated_delete state = Inl NotImplemented"
  "Active_delete state = Inl NotImplemented"
  by (simp_all add: New_selectInfrastructure_def New_delete_def NotActivated_activate_def
        NotActivated_delete_def Active_delete_def checkInvariants_def)

text \<open>
  Claim C6 (every typestate operation returns a variant with exactly the one event of
  its transition). In the intersection-type draft the new variant reconstructed from a
  new persisted snapshot does not return from \<open>selectInfrastructure\<close>: the call of
  \<open>checkInvariants\<close> throws before the result is built.
\<close>

theorem selectInfrastructure_not_implemented:
  "mapDbState (\<lambda>p. True)
      \<lparr>DbState.uuid = ''u1'', DbState.status = New, infrastructureStatus = NotSelected,
       infrastructureProvider = None\<rparr>
     = NewApp \<lparr>uuid = ''u1'', status = New, infrastructure = Some NotSelectedInfrastructure,
               dispatchedEvents = []\<rparr>
   \<and> New_selectInfrastructure
       \<lparr>uuid = ''u1'', status = New, infrastructure = Some NotSelectedInfrastructure,
        dispatchedEvents = []\<rparr> AWS
     = Inl NotImplemented"
  by (simp add: mapDbState_def build_defs New_selectInfrastructure_def checkInvariants_def)

section \<open>Payload shapes\<close>

text \<open>
  Claim C7, as stated, fails: called with the provider AWS and nothing else,
  \<open>selectInfrastructure\<close> constructs an \<open>ExistingInfrastructureSelected\<close> event whose
  payload has the provider AWS and no region.
\<close>

theorem selectInfrastructure_AWS_no_region:
  "selectInfrastructure_event
       \<lparr>uuid = ''u1'', status = New, infrastructure = Some NotSelectedInfrastructure,
        dispatchedEvents = []\<rparr> AWS
     = ExistingInfrastructureSelected ''u1'' AWS
   \<and> payload_infrastructureProvider (ExistingInfrastructureSelected ''u1'' AWS) = Some AWS
   \<and> payload_region (ExistingInfrastructureSelected ''u1'' AWS) = None"
  by (simp add: selectInfrastructure_event_def)

text \<open>
  Claim C7, amended. The payloads of \<open>ExistingInfrastructureSelected\<close> and of
  \<open>BuildRequested\<close> carry the provider. A \<open>BuildRequested\<close> payload carries a region
  exactly when its provider is AWS; an \<open>ExistingInfrastructureSelected\<close> payload carries
  no region for either provider. \<open>selectInfrastructure\<close> takes the provider alone, for
  AWS as for AZURE, and the event it constructs carries the \<open>uuid\<close> of the state, that
  provider and no region.
\<close>

theorem payload_shapes:
  "payload_infrastructureProvider (ExistingInfrastructureSelected u p) = Some p
   \<and> payload_region (ExistingInfrastructureSelected u p) = None
   \<and> payload_infrastructureProvider (BuildRequested b) \<noteq> None
   \<and> (payload_region (BuildRequested b) \<noteq> None)
       = (payload_infrastructureProvider (BuildRequested b) = Some AWS)
   \<and> payload_uuid (selectInfrastructure_event state p) = uuid state
   \<and> payload_infrastructureProvider (selectInfrastructure_event state p) = Some p
   \<and> payload_region (selectInfrastructure_event state p) = None"
  by (cases b) (simp_all add: selectInfrastructure_event_def)

section \<open>The invariant\<close>

text \<open>
  Claim C8. The invariant "an active snapshot has a selected infrastructure" is kept
  by \<open>apply\<close>: whenever it returns a snapshot for a snapshot that satisfies the
  invariant, the result satisfies it, and it does return one for every value of the
  state type. The snapshot of every variant that \<open>mapDbState\<close> returns satisfies the
  invariant.
\<close>

theorem invariant_preserved:
  "(invariant s \<and> apply_event s e = Inr s' \<longrightarrow> invariant s')
   \<and> (invariant s \<and> readable s \<longrightarrow> (\<exists>t. apply_event s e = Inr t \<and> invariant t))
   \<and> invariant (snapshot (mapDbState truthy db))"
proof (intro conjI impI)
  assume "invariant s \<and> apply_event s e = Inr s'"
  then show "invariant s'"
    using apply_event_invariant by blast
next
  assume h: "invariant s \<and> readable s"
  then obtain t where "apply_event s e = Inr t"
    using apply_event_returns by blast
  with h show "\<exists>t. apply_event s e = Inr t \<and> invariant t"
    using apply_event_invariant by blast
next
  show "invariant (snapshot (mapDbState truthy db))"
    by (rule mapDbState_invariant)
qed

theorem invariant_preserved_witness:
  "invariant \<lparr>uuid = ''u1'', status = New, infrastructure = Some (SelectedInfrastructure AWS)\<rparr>
   \<and> apply_event \<lparr>uuid = ''u1'', status = New, infrastructure = Some (SelectedInfrastructure AWS)\<rparr>
        (AppActivated ''u1'')
      = Inr \<lparr>uuid = ''u1'', status = Active, infrastructure = Some (SelectedInfrastructure AWS)\<rparr>
   \<and> invariant \<lparr>uuid = ''u1'', status = Active, infrastructure = Some (SelectedInfrastructure AWS)\<rparr>"
  using invariant_preserved
          [of "\<lparr>uuid = ''u1'', status = New, infrastructure = Some (SelectedInfrastructure AWS)\<rparr>"
              "AppActivated ''u1''"
              "\<lparr>uuid = ''u1'', status = Active, infrastructure = Some (SelectedInfrastructure AWS)\<rparr>"]
  by (simp add: pred_defs apply_defs invariant_def)

section \<open>Round trip\<close>

text \<open>
  Claim C9, as stated, fails: the corrupted snapshot that \<open>apply\<close> returns for
  \<open>AppActivated\<close> on a new snapshot with no infrastructure selected has the fields of
  the persisted snapshot below, and the state reconstructed from that persisted
  snapshot has lost the infrastructure.
\<close>

theorem roundtrip_Corrupted_counterexample:
  "apply_event \<lparr>uuid = ''u1'', status = New, infrastructure = Some NotSelectedInfrastructure\<rparr>
      (AppActivated ''u1'')
     = Inr \<lparr>uuid = ''u1'', status = Corrupted, infrastructure = Some NotSelectedInfrastructure\<rparr>
   \<and> sameFields
        \<lparr>DbState.uuid = ''u1'', DbState.status = Corrupted, infrastructureStatus = NotSelected,
         infrastructureProvider = None\<rparr>
        \<lparr>uuid = ''u1'', status = Corrupted, infrastructure = Some NotSelectedInfrastructure\<rparr>
   \<and> \<not> sameFields
        \<lparr>DbState.uuid = ''u1'', DbState.status = Corrupted, infrastructureStatus = NotSelected,
         infrastructureProvider = None\<rparr>
        (snapshot (mapDbState (\<lambda>p. True)
          \<lparr>DbState.uuid = ''u1'', DbState.status = Corrupted, infrastructureStatus = NotSelected,
           infrastructureProvider = None\<rparr>))"
  by (simp add: pred_defs sameFields_def mapDbState_def snapshot_def AppState.truncate_def)

text \<open>
  Claim C9, amended. For every persisted snapshot that \<open>mapDbState\<close> maps to a variant
  other than Corrupted and that holds a provider only when \<open>Selected\<close>, the wrapped
  snapshot has the fields of the persisted one: \<open>uuid\<close>, \<open>status\<close>, infrastructure
  status and provider. The snapshot of a Corrupted variant keeps the \<open>uuid\<close>, has the
  status \<open>Corrupted\<close> and has no infrastructure.
\<close>

theorem roundtrip_not_Corrupted:
  "(variant (mapDbState truthy db) \<noteq> VCorrupted
      \<and> (infrastructureStatus db = NotSelected \<longrightarrow> infrastructureProvider db = None)
      \<longrightarrow> sameFields db (snapshot (mapDbState truthy db)))
   \<and> (variant (mapDbState truthy db) = VCorrupted
      \<longrightarrow> snapshot (mapDbState truthy db)
            = \<lparr>uuid = DbState.uuid db, status = Corrupted, infrastructure = None\<rparr>)"
  by (cases "DbState.status db"; cases "infrastructureStatus db"; cases "infrastructureProvider db")
     (simp_all add: mapDbState_def build_defs sameFields_def provided_def snapshot_def
        AppState.truncate_def)

theorem roundtrip_not_Corrupted_witness:
  "sameFields
     \<lparr>DbState.uuid = ''u1'', DbState.status = Active, infrastructureStatus = Selected,
      infrastructureProvider = Some AWS\<rparr>
     (snapshot (mapDbState (\<lambda>p. True)
        \<lparr>DbState.uuid = ''u1'', DbState.status = Active, infrastructureStatus = Selected,
         infrastructureProvider = Some AWS\<rparr>))
   \<and> snapshot (mapDbState (\<lambda>p. True)
        \<lparr>DbState.uuid = ''u2'', DbState.status = Active, infrastructureStatus = NotSelected,
         infrastructureProvider = None\<rparr>)
     = \<lparr>uuid = ''u2'', status = Corrupted, infrastructure = None\<rparr>"
  using roundtrip_not_Corrupted
          [of "\<lambda>p. True"
              "\<lparr>DbState.uuid = ''u1'', DbState.status = Active, infrastructureStatus = Selected,
                infrastructureProvider = Some AWS\<rparr>"]
        roundtrip_not_Corrupted
          [of "\<lambda>p. True"
              "\<lparr>DbState.uuid = ''u2'', DbState.status = Active, infrastructureStatus = NotSelected,
                infrastructureProvider = None\<rparr>"]
  by (simp add: mapDbState_def build_defs provided_def)

section \<open>Corrupted snapshots\<close>

text \<open>
  Claim C10, as stated, fails on \<open>reduce\<close>: \<open>AppCreated\<close> applied to a corrupted
  snapshot returns a new snapshot.
\<close>

theorem reduce_Corrupted_AppCreated_counterexample:
  "reduce \<lparr>uuid = ''u1'', status = Corrupted, infrastructure = None\<rparr> (AppCreated ''u1'')
     = Inr \<lparr>uuid = ''u1'', status = New, infrastructure = Some NotSelectedInfrastructure\<rparr>"
  by simp

text \<open>
  Claim C10, amended. \<open>apply\<close> returns a corrupted snapshot for a corrupted snapshot
  and every event; \<open>reduce\<close> does so for every event other than \<open>AppCreated\<close>.
\<close>

theorem Corrupted_absorbing:
  fixes s :: AppState
  shows "(status s = Corrupted \<longrightarrow> (\<exists>t. apply_event s e = Inr t \<and> status t = Corrupted))
       \<and> (status s = Corrupted \<and> (\<forall>u. e \<noteq> AppCreated u)
            \<longrightarrow> (\<exists>t. reduce s e = Inr t \<and> status t = Corrupted))"
  by (cases e) (simp_all add: pred_defs)

theorem Corrupted_absorbing_witness:
  "(\<exists>t. apply_event \<lparr>uuid = ''u1'', status = Corrupted, infrastructure = None\<rparr> (AppCreated ''u1'')
          = Inr t \<and> status t = Corrupted)
   \<and> (\<exists>t. reduce \<lparr>uuid = ''u1'', status = Corrupted, infrastructure = Some NotSelectedInfrastructure\<rparr>
            (AppDeleted ''u1'') = Inr t \<and> status t = Corrupted)"
  using Corrupted_absorbing
          [of "\<lparr>uuid = ''u1'', status = Corrupted, infrastructure = None\<rparr>" "AppCreated ''u1''"]
        Corrupted_absorbing
          [of "\<lparr>uuid = ''u1'', status = Corrupted, infrastructure = Some NotSelectedInfrastructure\<rparr>"
              "AppDeleted ''u1''"]
  by simp

end
